theory Spec2Isabelle
  imports Main
begin

section \<open>Strings\<close>

text \<open>
  A Go string is modelled as a \<^typ>\<open>string\<close>, the list of its bytes. The functions of
  package \<open>strings\<close> that the shell calls are modelled on ASCII text: \<open>ToLower\<close> folds
  the letters \<open>A\<close> to \<open>Z\<close>, \<open>TrimSpace\<close> removes the six ASCII white-space characters.
  The loops of the shell that range over the runes of a string only compare them with
  ASCII characters and copy them, so on valid UTF-8 they act byte by byte.
\<close>

definition dq :: char where
  "dq = CHR 0x22"

definition sq :: char where
  "sq = CHR 0x27"

definition bs :: char where
  "bs = CHR 0x5C"

definition upperLetters :: string where
  "upperLetters = ''ABCDEFGHIJKLMNOPQRSTUVWXYZ''"

definition lowerLetters :: string where
  "lowerLetters = ''abcdefghijklmnopqrstuvwxyz''"

definition isUpper :: "char \<Rightarrow> bool" where
  "isUpper c = (c \<in> set upperLetters)"

definition toLowerChar :: "char \<Rightarrow> char" where
  "toLowerChar c = (case map_of (zip upperLetters lowerLetters) c of Some l \<Rightarrow> l | None \<Rightarrow> c)"

definition ToLower :: "string \<Rightarrow> string" where
  "ToLower s = map toLowerChar s"

definition isSpace :: "char \<Rightarrow> bool" where
  "isSpace c = (c = CHR '' '' \<or> c = CHR 0x09 \<or> c = CHR 0x0A \<or> c = CHR 0x0B
     \<or> c = CHR 0x0C \<or> c = CHR 0x0D)"

definition TrimSpace :: "string \<Rightarrow> string" where
  "TrimSpace s = rev (dropWhile isSpace (rev (dropWhile isSpace s)))"

definition HasPrefix :: "string \<Rightarrow> string \<Rightarrow> bool" where
  "HasPrefix s p = (take (length p) s = p)"

definition HasSuffix :: "string \<Rightarrow> string \<Rightarrow> bool" where
  "HasSuffix s x = (length x \<le> length s \<and> drop (length s - length x) s = x)"

text \<open>\<open>strings.Contains(s, "c")\<close> and \<open>strings.Split(s, "c")\<close> for a separator of one byte.\<close>

definition Contains :: "string \<Rightarrow> char \<Rightarrow> bool" where
  "Contains s c = (c \<in> set s)"

fun Split :: "string \<Rightarrow> char \<Rightarrow> string list" where
  "Split [] c = [[]]"
| "Split (x # xs) c =
     (if x = c then [] # Split xs c
      else (case Split xs c of [] \<Rightarrow> [[x]] | y # ys \<Rightarrow> (x # y) # ys))"

text \<open>\<open>strings.ReplaceAll(line, " ", "")\<close>.\<close>

definition removeSpaces :: "string \<Rightarrow> string" where
  "removeSpaces s = filter (\<lambda>c. c \<noteq> CHR '' '') s"

section \<open>Errors, output and the session state\<close>

text \<open>
  A Go \<open>error\<close> is its message; \<open>fmt.Errorf("unknown command: %s", x)\<close> is
  \<open>Error (''unknown command: '' @ x)\<close>.
\<close>

datatype error = Error string

fun message :: "error \<Rightarrow> string" where
  "message (Error s) = s"

definition UnknownCommand :: "string \<Rightarrow> error" where
  "UnknownCommand name = Error (''unknown command: '' @ name)"

definition InvalidArgument :: "string \<Rightarrow> error" where
  "InvalidArgument arg = Error (''invalid argument: '' @ arg)"

definition ErrorSplittingArgument :: "error \<Rightarrow> error" where
  "ErrorSplittingArgument e = Error (''error splitting argument: '' @ message e)"

definition ErrorSplittingCommand :: "error \<Rightarrow> error" where
  "ErrorSplittingCommand e = Error (''error splitting command: '' @ message e)"

text \<open>
  What the shell changes while it runs: the lines written to standard output, the lines
  handed to \<open>a.line.AppendHistory\<close> (\<open>lineState\<close> is \<open>None\<close> when \<open>a.line\<close> is nil), and the user data
  \<open>a.Data\<close> that the handlers work on.
\<close>

record 'd World =
  Stdout :: "string list"
  lineState :: "string list option"
  Data :: 'd

text \<open>\<open>fmt.Println\<close> writes its operands separated by one space.\<close>

fun operands :: "string list \<Rightarrow> string" where
  "operands [] = []"
| "operands [x] = x"
| "operands (x # y # ys) = x @ '' '' @ operands (y # ys)"

definition Println :: "string list \<Rightarrow> 'd World \<Rightarrow> 'd World" where
  "Println ops w = w\<lparr>Stdout := Stdout w @ [operands ops]\<rparr>"

definition AppendHistory :: "string \<Rightarrow> 'd World \<Rightarrow> 'd World" where
  "AppendHistory command w =
     (case lineState w of None \<Rightarrow> w | Some h \<Rightarrow> w\<lparr>lineState := Some (h @ [command])\<rparr>)"

section \<open>Commands and the shell\<close>

text \<open>
  \<open>Args\<close> holds the triples name, description, default value. A handler receives the
  argument map and works on the session state; it does not change the registry.
\<close>

type_synonym argmap = "string \<rightharpoonup> string"

record 'd Command =
  Name :: string
  Description :: string
  Args :: "(string \<times> string \<times> string) list"
  Run :: "argmap \<Rightarrow> 'd World \<Rightarrow> 'd World \<times> error option"
  Completer :: "(string \<Rightarrow> argmap \<Rightarrow> 'd World \<Rightarrow> 'd World \<times> (error + string list)) option"

text \<open>
  The two splitters come from the package \<open>go-andiamo/splitter\<close>, which is not part of the
  repository: they are fields of the shell, as in the source, and every general theorem
  below holds for any pair of splitters. The fields \<open>ProjectName\<close>, \<open>Prompter\<close> and
  \<open>HistoryPath\<close> play no part in the functions below and are left out; \<open>Data\<close> and \<open>line\<close>
  are in the session state. The registry binds a name to a command: a nil command pointer
  stored in it is not modelled.
\<close>

record 'd ShellCli =
  Commands :: "string \<rightharpoonup> 'd Command"
  Splitter :: "string \<Rightarrow> error + string list"
  ArgSplitter :: "string \<Rightarrow> error + string list"
  CaseInsensitive :: bool
  DebugCompletions :: bool

definition argName :: "(string \<times> string \<times> string) \<Rightarrow> string" where
  "argName spec = fst spec"

definition ParseOutCommand :: "'d ShellCli \<Rightarrow> string list \<Rightarrow> error + 'd Command option" where
  "ParseOutCommand a cmd =
     (case cmd of
        [] \<Rightarrow> Inr None
      | c0 # _ \<Rightarrow>
          (let cmdName = (if CaseInsensitive a then ToLower c0 else c0) in
           case Commands a cmdName of
             None \<Rightarrow> Inl (UnknownCommand c0)
           | Some cmdData \<Rightarrow> Inr (Some cmdData)))"

text \<open>
  The loop of \<open>CreateArgMapFromArgs\<close>: \<open>i\<close> is the index of the token \<open>arg\<close> in \<open>args\<close>,
  \<open>argMap\<close> the map built so far.
\<close>

fun argLoop :: "'d ShellCli \<Rightarrow> 'd Command \<Rightarrow> nat \<Rightarrow> string list \<Rightarrow> argmap \<Rightarrow> 'd World
    \<Rightarrow> 'd World \<times> (error + argmap)" where
  "argLoop a cmdData i [] argMap w = (w, Inr argMap)"
| "argLoop a cmdData i (arg # args) argMap w =
     (case ArgSplitter a arg of
        Inl err \<Rightarrow> (w, Inl (ErrorSplittingArgument err))
      | Inr flds \<Rightarrow>
          if length flds = 1 then
            (if length (Args cmdData) \<le> i
             then argLoop a cmdData (Suc i) args argMap
                    (Println [''WARNING: extra argument: '', flds ! 0] w)
             else argLoop a cmdData (Suc i) args
                    (argMap(argName (Args cmdData ! i) \<mapsto> flds ! 0)) w)
          else if length flds \<noteq> 2 then (w, Inl (InvalidArgument arg))
          else argLoop a cmdData (Suc i) args (argMap(flds ! 0 \<mapsto> flds ! 1)) w)"

definition CreateArgMapFromArgs :: "'d ShellCli \<Rightarrow> 'd Command \<Rightarrow> string list \<Rightarrow> 'd World
    \<Rightarrow> 'd World \<times> (error + argmap)" where
  "CreateArgMapFromArgs a cmdData args w = argLoop a cmdData 0 args Map.empty w"

text \<open>\<open>Exec\<close>: resolve the command, build the argument map from \<open>cmd[1:]\<close>, run the handler.\<close>

definition Exec :: "'d ShellCli \<Rightarrow> string list \<Rightarrow> 'd World \<Rightarrow> 'd World \<times> error option" where
  "Exec a cmd w =
     (case ParseOutCommand a cmd of
        Inl err \<Rightarrow> (w, Some err)
      | Inr None \<Rightarrow> (w, None)
      | Inr (Some cmdData) \<Rightarrow>
          (case CreateArgMapFromArgs a cmdData (tl cmd) w of
             (w1, Inl err) \<Rightarrow> (w1, Some err)
           | (w1, Inr argMap) \<Rightarrow> Run cmdData argMap w1))"

text \<open>\<open>RunString\<close> returns the new state, the exit flag and the error.\<close>

definition RunString :: "'d ShellCli \<Rightarrow> string \<Rightarrow> 'd World \<Rightarrow> 'd World \<times> bool \<times> error option" where
  "RunString a command0 w =
     (let command = TrimSpace command0 in
      case Splitter a command of
        Inl err \<Rightarrow> (w, False, Some (ErrorSplittingCommand err))
      | Inr tokens \<Rightarrow>
          (case tokens of
             [] \<Rightarrow> (w, False, None)
           | t0 # _ \<Rightarrow>
               if t0 = [] then (w, False, None)
               else if t0 = ''exit'' \<or> t0 = ''quit'' then (w, True, None)
               else (case Exec a tokens (AppendHistory command w) of
                       (w1, Some err) \<Rightarrow> (w1, False, Some err)
                     | (w1, None) \<Rightarrow> (w1, False, None))))"

text \<open>A nil \<open>Commands\<close> map is the empty map: \<open>AddCommand\<close> allocates it on first use.\<close>

definition AddCommand :: "string \<Rightarrow> 'd Command \<Rightarrow> 'd ShellCli \<Rightarrow> 'd ShellCli" where
  "AddCommand name cmd a = a\<lparr>Commands := (Commands a)(name \<mapsto> cmd)\<rparr>"

text \<open>The loop of \<open>ExecuteCommands\<close> over the segments \<open>strings.Split(cmd, ";")\<close>.\<close>

fun runSegments :: "'d ShellCli \<Rightarrow> string list \<Rightarrow> 'd World \<Rightarrow> 'd World \<times> bool \<times> error option" where
  "runSegments a [] w = (w, False, None)"
| "runSegments a (c # cs) w =
     (if c = [] then runSegments a cs w
      else (case RunString a c w of
              (w1, cancel, err) \<Rightarrow>
                if err \<noteq> None \<or> cancel then (w1, cancel, err) else runSegments a cs w1))"

definition ExecuteCommands :: "'d ShellCli \<Rightarrow> string \<Rightarrow> 'd World \<Rightarrow> 'd World \<times> bool \<times> error option" where
  "ExecuteCommands a cmd w = runSegments a (Split cmd (CHR '';'')) w"

section \<open>Completion\<close>

text \<open>
  Go ranges over a map in an unspecified order. \<open>ks\<close> is the order in which the runtime
  visits the keys of \<open>a.Commands\<close> during the call: the theorems take it to be any list
  whose elements are the keys of the registry.
\<close>

definition matchingNames :: "string list \<Rightarrow> string \<Rightarrow> string list" where
  "matchingNames ks ln = filter (\<lambda>name. HasPrefix name (ToLower ln)) ks"

definition debugPrintln :: "'d ShellCli \<Rightarrow> string list \<Rightarrow> 'd World \<Rightarrow> 'd World" where
  "debugPrintln a ops w = (if DebugCompletions a then Println ops w else w)"

definition CompletionHandler :: "'d ShellCli \<Rightarrow> string list \<Rightarrow> string \<Rightarrow> 'd World
    \<Rightarrow> 'd World \<times> string list" where
  "CompletionHandler a ks ln w =
     (if length (removeSpaces ln) = 0 then (w, matchingNames ks ln)
      else if Contains ln (CHR '';'') then (w, [])
      else
        (let command = TrimSpace ln in
         case Splitter a command of
           Inl err \<Rightarrow> (debugPrintln a [message err] w, [])
         | Inr tokens \<Rightarrow>
             (case tokens of
                [] \<Rightarrow> (w, [])
              | t0 # _ \<Rightarrow>
                  if t0 = [] then (w, [])
                  else if t0 = ''exit'' \<or> t0 = ''quit'' then (w, [])
                  else
                    (case ParseOutCommand a tokens of
                       Inl err \<Rightarrow>
                         (debugPrintln a [''error parsing command: '', message err] w,
                          matchingNames ks ln)
                     | Inr None \<Rightarrow> (w, [])
                     | Inr (Some cmdData) \<Rightarrow>
                         (case Completer cmdData of
                            None \<Rightarrow> (w, [])
                          | Some completer \<Rightarrow>
                              (case CreateArgMapFromArgs a cmdData (tl tokens) w of
                                 (w1, Inl err) \<Rightarrow>
                                   (debugPrintln a [''error creating arg map: '', message err] w1, [])
                               | (w1, Inr argMap) \<Rightarrow>
                                   (case completer ln argMap w1 of
                                      (w2, Inl err) \<Rightarrow>
                                        (debugPrintln a [''error running completer: '', message err] w2, [])
                                    | (w2, Inr completions) \<Rightarrow>
                                        (w2, map (\<lambda>completion. completion @ '' '') completions))))))))"

text \<open>
  \<open>UtilFindUntypedArgInArgStr\<close>: the first loop cuts the string at the spaces outside
  quotes, where either quote character toggles \<open>inQuotes\<close>; the second keeps the last
  argument without \<open>=\<close>.
\<close>

fun splitLoop :: "string \<Rightarrow> string list \<Rightarrow> string \<Rightarrow> bool \<Rightarrow> string list" where
  "splitLoop [] splitArgs currentArg inQuotes =
     (if length currentArg > 0 then splitArgs @ [currentArg] else splitArgs)"
| "splitLoop (char # rest) splitArgs currentArg inQuotes0 =
     (let inQuotes = (if char = sq \<or> char = dq then \<not> inQuotes0 else inQuotes0) in
      if char = CHR '' '' \<and> \<not> inQuotes then
        (if length currentArg > 0 then splitLoop rest (splitArgs @ [currentArg]) [] inQuotes
         else splitLoop rest splitArgs currentArg inQuotes)
      else splitLoop rest splitArgs (currentArg @ [char]) inQuotes)"

fun untypedLoop :: "string list \<Rightarrow> string \<Rightarrow> string" where
  "untypedLoop [] lastUntyped = lastUntyped"
| "untypedLoop (arg # args) lastUntyped =
     (if \<not> Contains arg (CHR ''='') then untypedLoop args arg
      else if HasSuffix arg ''='' then untypedLoop args []
      else untypedLoop args lastUntyped)"

definition UtilFindUntypedArgInArgStr :: "string \<Rightarrow> string" where
  "UtilFindUntypedArgInArgStr args = untypedLoop (splitLoop args [] [] False) []"

section \<open>The splitters of \<open>Init\<close>\<close>

text \<open>
  Modelled from the spec: the package \<open>go-andiamo/splitter\<close>, whose \<open>NewSplitter\<close> and
  options \<open>Init\<close> calls, is not in the repository. Sections 4.1 and 4.2 of the specification
  describe it: fields are cut at the separator outside the enclosures \<open>()\<close>, \<open>[]\<close>, \<open>{}\<close>
  and outside single and double quotes, where a backslash escapes the next character; an
  unbalanced enclosure is an error; an empty first and an empty last field are dropped and
  every field is trimmed; the argument splitter also strips one level of surrounding
  quotes and removes the escaping backslashes. It is used for the concrete sessions only.
\<close>

definition isQuote :: "char \<Rightarrow> bool" where
  "isQuote c = (c = dq \<or> c = sq)"

definition closerOf :: "char \<Rightarrow> char option" where
  "closerOf c =
     (if c = CHR ''('' then Some (CHR '')'')
      else if c = CHR ''['' then Some (CHR '']'')
      else if c = CHR ''{'' then Some (CHR ''}'')
      else None)"

definition isCloser :: "char \<Rightarrow> bool" where
  "isCloser c = (c = CHR '')'' \<or> c = CHR '']'' \<or> c = CHR ''}'')"

fun scanFields :: "char \<Rightarrow> char list \<Rightarrow> string \<Rightarrow> string \<Rightarrow> error + string list" where
  "scanFields sep st cur [] =
     (if st = [] then Inr [cur] else Inl (Error ''unclosed enclosure''))"
| "scanFields sep st cur (c # cs) =
     (if st \<noteq> [] \<and> isQuote (hd st) then
        (if c = bs then
           (case cs of
              [] \<Rightarrow> scanFields sep st (cur @ [c]) []
            | d # ds \<Rightarrow> scanFields sep st (cur @ [c, d]) ds)
         else if c = hd st then scanFields sep (tl st) (cur @ [c]) cs
         else scanFields sep st (cur @ [c]) cs)
      else if isQuote c then scanFields sep (c # st) (cur @ [c]) cs
      else
        (case closerOf c of
           Some cl \<Rightarrow> scanFields sep (cl # st) (cur @ [c]) cs
         | None \<Rightarrow>
             if isCloser c then
               (if st \<noteq> [] \<and> hd st = c then scanFields sep (tl st) (cur @ [c]) cs
                else Inl (Error ''unopened enclosure''))
             else if c = sep \<and> st = [] then
               (case scanFields sep [] [] cs of
                  Inl e \<Rightarrow> Inl e
                | Inr fs \<Rightarrow> Inr (cur # fs))
             else scanFields sep st (cur @ [c]) cs))"

definition ignoreEmptyFirst :: "string list \<Rightarrow> string list" where
  "ignoreEmptyFirst fs = (case fs of [] \<Rightarrow> [] | f # r \<Rightarrow> if f = [] then r else fs)"

definition ignoreEmptyLast :: "string list \<Rightarrow> string list" where
  "ignoreEmptyLast fs = (if fs \<noteq> [] \<and> last fs = [] then butlast fs else fs)"

fun unescape :: "string \<Rightarrow> string" where
  "unescape [] = []"
| "unescape [c] = [c]"
| "unescape (c # d # r) = (if c = bs then d # unescape r else c # unescape (d # r))"

definition unescapeQuotes :: "string \<Rightarrow> string" where
  "unescapeQuotes f =
     (if 2 \<le> length f \<and> isQuote (hd f) \<and> last f = hd f then unescape (butlast (tl f)) else f)"

definition NewSplitter :: "char \<Rightarrow> (string \<Rightarrow> string) \<Rightarrow> string \<Rightarrow> error + string list" where
  "NewSplitter sep fix s =
     (case scanFields sep [] [] s of
        Inl e \<Rightarrow> Inl e
      | Inr fs \<Rightarrow> Inr (map fix (ignoreEmptyLast (ignoreEmptyFirst fs))))"

definition Init :: "'d ShellCli \<Rightarrow> 'd ShellCli" where
  "Init a = a\<lparr>Splitter := NewSplitter (CHR '' '') TrimSpace,
             ArgSplitter := NewSplitter (CHR ''='') (unescapeQuotes \<circ> TrimSpace)\<rparr>"

section \<open>Concrete sessions\<close>

text \<open>
  A handler that records its name and its arguments \<open>x\<close> and \<open>y\<close> in the user data, a
  command built around it, and a shell with no command registered.
\<close>

definition recordRun :: "string \<Rightarrow> argmap \<Rightarrow> (string \<times> string option \<times> string option) list World
    \<Rightarrow> (string \<times> string option \<times> string option) list World \<times> error option" where
  "recordRun name args w = (w\<lparr>Data := Data w @ [(name, args ''x'', args ''y'')]\<rparr>, None)"

definition newCommand :: "string \<Rightarrow> string list
    \<Rightarrow> (string \<times> string option \<times> string option) list Command" where
  "newCommand name argNames =
     \<lparr>Name = name, Description = [], Args = map (\<lambda>n. (n, [], [])) argNames,
      Run = recordRun name, Completer = None\<rparr>"

definition newShell :: "bool \<Rightarrow> bool \<Rightarrow> (string \<times> string option \<times> string option) list ShellCli" where
  "newShell ci dbg =
     Init \<lparr>Commands = Map.empty, Splitter = (\<lambda>s. Inr []), ArgSplitter = (\<lambda>s. Inr []),
           CaseInsensitive = ci, DebugCompletions = dbg\<rparr>"

definition newWorld :: "(string \<times> string option \<times> string option) list World" where
  "newWorld = \<lparr>Stdout = [], lineState = Some [], Data = []\<rparr>"

section \<open>Auxiliary facts\<close>

lemmas string_defs =
  ToLower_def toLowerChar_def upperLetters_def lowerLetters_def isUpper_def
  TrimSpace_def isSpace_def HasPrefix_def HasSuffix_def Contains_def removeSpaces_def
  dq_def sq_def bs_def

lemmas splitter_defs =
  NewSplitter_def Init_def isQuote_def closerOf_def isCloser_def
  ignoreEmptyFirst_def ignoreEmptyLast_def unescapeQuotes_def

lemmas session_defs =
  newShell_def newCommand_def newWorld_def recordRun_def AddCommand_def
  Println_def AppendHistory_def argName_def
  UnknownCommand_def InvalidArgument_def ErrorSplittingArgument_def ErrorSplittingCommand_def

lemma toLowerChar_not_upper: "\<not> isUpper (toLowerChar c)"
  by (auto simp: toLowerChar_def isUpper_def upperLetters_def lowerLetters_def)


lemma ToLower_ne_upper:
  assumes "\<exists>ch \<in> set name. isUpper ch"
  shows "ToLower s \<noteq> name"
proof
  assume "ToLower s = name"
  then have "\<forall>ch \<in> set name. \<not> isUpper ch"
    by (auto simp: ToLower_def toLowerChar_not_upper)
  with assms show False by blast
qed

text \<open>The loop over a list of tokens cut in two: the index goes on counting.\<close>

lemma argLoop_append:
  "argLoop a c i (xs @ ys) m w =
     (case argLoop a c i xs m w of
        (w1, Inl e) \<Rightarrow> (w1, Inl e)
      | (w1, Inr m1) \<Rightarrow> argLoop a c (i + length xs) ys m1 w1)"
  by (induction xs arbitrary: i m w) (auto split: sum.splits)

lemma Split_nonempty: "Split s c \<noteq> []"
  by (induction s) (auto split: list.splits)

lemma Split_append: "Split (l1 @ c # l2) c = Split l1 c @ Split l2 c"
  by (induction l1) (auto split: list.splits simp: Split_nonempty)

lemma Split_single: "c \<notin> set s \<Longrightarrow> Split s c = [s]"
  by (induction s) auto

lemma runSegments_append:
  "runSegments a (xs @ ys) w =
     (case runSegments a xs w of
        (w1, cancel, err) \<Rightarrow>
          if err \<noteq> None \<or> cancel then (w1, cancel, err) else runSegments a ys w1)"
  by (induction xs arbitrary: w) (auto split: prod.splits)







section \<open>The argument map\<close>

text \<open>
  Claim C1, as stated, fails. It says that a bare token is assigned to the declared
  arguments in declaration order whatever the number of named tokens before it, so that
  for the declared arguments \<open>x\<close>, \<open>y\<close> and the tokens \<open>y=1\<close>, \<open>2\<close> the token \<open>2\<close> goes to
  \<open>x\<close>. The loop indexes \<open>cmdData.Args\<close> with the index of the token in the token list:
  \<open>2\<close> is the token of index 1 and goes to \<open>y\<close>, and \<open>x\<close> stays unbound.
\<close>

theorem bare_token_after_named_counterexample:
  "CreateArgMapFromArgs (newShell False False) (newCommand ''c'' [''x'', ''y''])
     [''y=1'', ''2''] newWorld = (newWorld, Inr [''y'' \<mapsto> ''2''])
   \<and> [''y'' \<mapsto> ''2''] ''x'' = None"
  by (simp add: CreateArgMapFromArgs_def session_defs splitter_defs string_defs)

text \<open>
  Claim C1, amended: positional assignment applies only to the tokens that the argument
  splitter returns as a single field, and such a token is assigned by its index in the
  token list, which counts the named tokens before it. After the tokens \<open>pre\<close>, a
  one-field token goes to the declared argument of index \<open>length pre\<close> when the command
  declares one, and is reported and dropped otherwise; a two-field token is assigned by
  its key, whatever its index.
\<close>

theorem bare_token_by_token_index:
  assumes "CreateArgMapFromArgs a c pre w = (w', Inr m)"
  shows "(ArgSplitter a tok = Inr [v] \<longrightarrow>
           CreateArgMapFromArgs a c (pre @ [tok]) w =
             (if length pre < length (Args c)
              then (w', Inr (m(fst (Args c ! length pre) \<mapsto> v)))
              else (w'\<lparr>Stdout := Stdout w' @ [''WARNING: extra argument:  '' @ v]\<rparr>, Inr m)))
       \<and> (ArgSplitter a tok = Inr [k, v] \<longrightarrow>
           CreateArgMapFromArgs a c (pre @ [tok]) w = (w', Inr (m(k \<mapsto> v))))"
  using assms
  by (simp add: CreateArgMapFromArgs_def argLoop_append Println_def argName_def)

theorem bare_token_by_token_index_witness:
  "CreateArgMapFromArgs (newShell False False) (newCommand ''c'' [''x'', ''y''])
     ([''y=1''] @ [''2'']) newWorld = (newWorld, Inr [''y'' \<mapsto> ''2''])
   \<and> CreateArgMapFromArgs (newShell False False) (newCommand ''c'' [''x'', ''y''])
     ([''1''] @ [''y=2'']) newWorld = (newWorld, Inr [''x'' \<mapsto> ''1'', ''y'' \<mapsto> ''2''])"
proof -
  let ?a = "newShell False False"
  let ?c = "newCommand ''c'' [''x'', ''y'']"
  have named: "CreateArgMapFromArgs ?a ?c [''y=1''] newWorld = (newWorld, Inr [''y'' \<mapsto> ''1''])"
    by (simp add: CreateArgMapFromArgs_def session_defs splitter_defs string_defs)
  have bare: "CreateArgMapFromArgs ?a ?c [''1''] newWorld = (newWorld, Inr [''x'' \<mapsto> ''1''])"
    by (simp add: CreateArgMapFromArgs_def session_defs splitter_defs string_defs)
  have one: "ArgSplitter ?a ''2'' = Inr [''2'']"
    by (simp add: session_defs splitter_defs string_defs)
  have two: "ArgSplitter ?a ''y=2'' = Inr [''y'', ''2'']"
    by (simp add: session_defs splitter_defs string_defs)
  have args: "length (Args ?c) = 2" "fst (Args ?c ! 1) = ''y''"
    by (simp_all add: newCommand_def)
  from bare_token_by_token_index [OF named, where tok = "''2''" and v = "''2''"] one args
  have "CreateArgMapFromArgs ?a ?c ([''y=1''] @ [''2'']) newWorld = (newWorld, Inr [''y'' \<mapsto> ''2''])"
    by simp
  moreover from bare_token_by_token_index [OF bare, where tok = "''y=2''" and k = "''y''" and v = "''2''"] two
  have "CreateArgMapFromArgs ?a ?c ([''1''] @ [''y=2'']) newWorld
          = (newWorld, Inr [''x'' \<mapsto> ''1'', ''y'' \<mapsto> ''2''])"
    by simp
  ultimately show ?thesis by simp
qed

text \<open>
  Claim C2, as stated, fails. For the single declared argument \<open>x\<close> and the tokens
  \<open>x=1\<close>, \<open>2\<close> it announces the map \<open>{x: 2}\<close>. The bare token \<open>2\<close> has index 1 in the
  token list and the command declares no argument of index 1: the token is reported and
  dropped, and the map keeps \<open>x = 1\<close>.
\<close>

theorem named_then_bare_counterexample:
  "CreateArgMapFromArgs (newShell False False) (newCommand ''c'' [''x'']) [''x=1'', ''2''] newWorld
     = (newWorld\<lparr>Stdout := [''WARNING: extra argument:  2'']\<rparr>, Inr [''x'' \<mapsto> ''1''])
   \<and> [''x'' \<mapsto> ''1''] ''x'' \<noteq> Some ''2''"
  by (simp add: CreateArgMapFromArgs_def session_defs splitter_defs string_defs)

text \<open>
  Claim C2, amended: for a command with a single declared argument, a named token
  followed by a bare token gives the map that binds the key of the named token to its
  value, together with the warning for the bare token, which is dropped. In the other
  order the bare token is assigned to the declared argument first and the named token is
  written after it: when its key is the declared name, it overwrites the positional value
  (the last write wins, in token order).
\<close>

theorem named_then_bare_single_spec:
  assumes "length (Args c) = 1"
    and "ArgSplitter a ta = Inr [k, va]"
    and "ArgSplitter a tb = Inr [vb]"
  shows "CreateArgMapFromArgs a c [ta, tb] w =
           (w\<lparr>Stdout := Stdout w @ [''WARNING: extra argument:  '' @ vb]\<rparr>, Inr [k \<mapsto> va])
       \<and> CreateArgMapFromArgs a c [tb, ta] w =
           (w, Inr [fst (Args c ! 0) \<mapsto> vb, k \<mapsto> va])"
  using assms
  by (simp add: CreateArgMapFromArgs_def Println_def argName_def)

theorem named_then_bare_single_spec_witness:
  "CreateArgMapFromArgs (newShell False False) (newCommand ''c'' [''x'']) [''x=1'', ''2''] newWorld
     = (newWorld\<lparr>Stdout := Stdout newWorld @ [''WARNING: extra argument:  '' @ ''2'']\<rparr>,
        Inr [''x'' \<mapsto> ''1''])
   \<and> CreateArgMapFromArgs (newShell False False) (newCommand ''c'' [''x'']) [''2'', ''x=1''] newWorld
     = (newWorld, Inr [''x'' \<mapsto> ''1''])"
proof -
  let ?a = "newShell False False"
  let ?c = "newCommand ''c'' [''x'']"
  have len: "length (Args ?c) = 1" and name: "fst (Args ?c ! 0) = ''x''"
    by (simp_all add: newCommand_def)
  have two: "ArgSplitter ?a ''x=1'' = Inr [''x'', ''1'']"
    by (simp add: session_defs splitter_defs string_defs)
  have one: "ArgSplitter ?a ''2'' = Inr [''2'']"
    by (simp add: session_defs splitter_defs string_defs)
  from named_then_bare_single_spec [OF len two one, where w = newWorld] name
  show ?thesis by simp
qed



text \<open>
  Claim C9: \<open>CreateArgMapFromArgs\<close> never checks an explicit key against the declared
  arguments. For every shell, every command \<open>c\<close> (whatever \<open>Args c\<close> holds) and every
  token that the splitter cuts in a key and a value, the call on that token returns the
  map that binds the key to the value, with no error and nothing written; and after any
  tokens \<open>pre\<close> read without failure the token adds that binding to the map and leaves the
  output as it was.
\<close>

theorem explicit_key_not_validated:
  assumes "ArgSplitter a tok = Inr [k, v]"
  shows "CreateArgMapFromArgs a c [tok] w = (w, Inr [k \<mapsto> v])
       \<and> (CreateArgMapFromArgs a c pre w = (w', Inr m) \<longrightarrow>
            CreateArgMapFromArgs a c (pre @ [tok]) w = (w', Inr (m(k \<mapsto> v))))"
  using assms
  by (simp add: CreateArgMapFromArgs_def argLoop_append)

theorem explicit_key_not_validated_witness:
  "''zz'' \<notin> set (map fst (Args (newCommand ''c'' [''x''])))
   \<and> CreateArgMapFromArgs (newShell False False) (newCommand ''c'' [''x'']) [''zz=1''] newWorld
       = (newWorld, Inr [''zz'' \<mapsto> ''1''])
   \<and> CreateArgMapFromArgs (newShell False False) (newCommand ''c'' [''x'']) ([''7''] @ [''zz=1''])
       newWorld = (newWorld, Inr [''x'' \<mapsto> ''7'', ''zz'' \<mapsto> ''1''])"
proof -
  let ?a = "newShell False False"
  let ?c = "newCommand ''c'' [''x'']"
  have two: "ArgSplitter ?a ''zz=1'' = Inr [''zz'', ''1'']"
    by (simp add: session_defs splitter_defs string_defs)
  have pre: "CreateArgMapFromArgs ?a ?c [''7''] newWorld = (newWorld, Inr [''x'' \<mapsto> ''7''])"
    by (simp add: CreateArgMapFromArgs_def session_defs splitter_defs string_defs)
  have undeclared: "''zz'' \<notin> set (map fst (Args ?c))"
    by (simp add: newCommand_def)
  from explicit_key_not_validated [OF two, where c = ?c and w = newWorld and pre = "[''7'']"
      and w' = newWorld and m = "[''x'' \<mapsto> ''7'']"]
    pre undeclared
  show ?thesis by simp
qed

section \<open>Running a line\<close>

text \<open>
  Claim C4: \<open>ExecuteCommands\<close> cuts the line at every \<open>;\<close>, skips the empty segments and
  runs the others through \<open>RunString\<close> in order, stopping at the first one that returns
  an error or the exit signal. The theorem states it on the line itself: what follows a
  \<open>;\<close> is run only if what precedes it returned neither an error nor the exit signal,
  and from the state that it left; otherwise the result of the part before the \<open>;\<close> is
  the result of the line, whatever follows. A line without \<open>;\<close> is skipped when empty
  and is one call of \<open>RunString\<close> otherwise.
\<close>

theorem ExecuteCommands_fail_fast:
  "ExecuteCommands a (l1 @ '';'' @ l2) w =
     (case ExecuteCommands a l1 w of
        (w', cancel, err) \<Rightarrow>
          if err \<noteq> None \<or> cancel then (w', cancel, err) else ExecuteCommands a l2 w')
   \<and> (\<not> Contains c (CHR '';'') \<longrightarrow>
        ExecuteCommands a c w =
          (if c = [] then (w, False, None)
           else (case RunString a c w of
                   (w', cancel, err) \<Rightarrow>
                     if err \<noteq> None \<or> cancel then (w', cancel, err) else (w', False, None))))"
  by (auto simp: ExecuteCommands_def Split_append runSegments_append Split_single Contains_def
      split: prod.splits)

text \<open>
  The line \<open>bad; good\<close> in a shell where only \<open>good\<close> is registered: the error of \<open>bad\<close>
  is returned, the handler of \<open>good\<close> has written nothing in the user data and \<open>good\<close>
  has not reached the history, while \<open>good\<close> alone runs its handler.
\<close>

theorem ExecuteCommands_fail_fast_witness:
  "\<not> Contains ''bad'' (CHR '';'')
   \<and> ExecuteCommands (AddCommand ''good'' (newCommand ''good'' []) (newShell False False))
        ''bad; good'' newWorld
       = (newWorld\<lparr>lineState := Some [''bad'']\<rparr>, False, Some (Error ''unknown command: bad''))
   \<and> ExecuteCommands (AddCommand ''good'' (newCommand ''good'' []) (newShell False False))
        '' good'' newWorld
       = (newWorld\<lparr>lineState := Some [''good''], Data := [(''good'', None, None)]\<rparr>, False, None)"
proof -
  let ?a = "AddCommand ''good'' (newCommand ''good'' []) (newShell False False)"
  have seg: "\<not> Contains ''bad'' (CHR '';'')" and seg': "\<not> Contains '' good'' (CHR '';'')"
    by (simp_all add: Contains_def)
  have bad: "RunString ?a ''bad'' newWorld
      = (newWorld\<lparr>lineState := Some [''bad'']\<rparr>, False, Some (Error ''unknown command: bad''))"
    by (simp add: RunString_def Exec_def ParseOutCommand_def Let_def session_defs splitter_defs
        string_defs)
  have good: "RunString ?a '' good'' newWorld
      = (newWorld\<lparr>lineState := Some [''good''], Data := [(''good'', None, None)]\<rparr>, False, None)"
    by (simp add: RunString_def Exec_def ParseOutCommand_def CreateArgMapFromArgs_def Let_def
        session_defs splitter_defs string_defs)
  from ExecuteCommands_fail_fast [where a = ?a and c = "''bad''" and w = newWorld] seg bad
  have first: "ExecuteCommands ?a ''bad'' newWorld
      = (newWorld\<lparr>lineState := Some [''bad'']\<rparr>, False, Some (Error ''unknown command: bad''))"
    by simp
  from ExecuteCommands_fail_fast [where a = ?a and ?l1.0 = "''bad''" and ?l2.0 = "'' good''"
      and w = newWorld] first
  have line: "ExecuteCommands ?a (''bad'' @ '';'' @ '' good'') newWorld
      = (newWorld\<lparr>lineState := Some [''bad'']\<rparr>, False, Some (Error ''unknown command: bad''))"
    by simp
  from ExecuteCommands_fail_fast [where a = ?a and c = "'' good''" and w = newWorld] seg' good
  have alone: "ExecuteCommands ?a '' good'' newWorld
      = (newWorld\<lparr>lineState := Some [''good''], Data := [(''good'', None, None)]\<rparr>, False, None)"
    by simp
  from seg line alone show ?thesis by simp
qed

text \<open>
  Claim C6: when the first token of the trimmed line is exactly \<open>exit\<close> or \<open>quit\<close>,
  \<open>RunString\<close> returns the exit signal and no error. The state is returned as it was
  received (no handler has run, nothing is added to the history), and the result is the
  same for every registry \<open>reg\<close> and every value \<open>ci\<close> of the case-insensitivity flag: the
  registry is not consulted.
\<close>

theorem exit_token_short_circuits:
  assumes "Splitter a (TrimSpace command) = Inr (t0 # ts)"
    and "t0 = ''exit'' \<or> t0 = ''quit''"
  shows "RunString (a\<lparr>Commands := reg, CaseInsensitive := ci\<rparr>) command w = (w, True, None)"
  using assms by (auto simp: RunString_def)

text \<open>
  The line \<open>exit now\<close> in a case-insensitive shell where a command is registered under
  the name \<open>exit\<close>, and \<open>quit\<close> in the shell with no command; \<open>EXIT\<close> is not an exit token,
  even in a case-insensitive shell.
\<close>

theorem exit_token_short_circuits_witness:
  "RunString ((newShell False False)\<lparr>Commands := [''exit'' \<mapsto> newCommand ''exit'' []],
      CaseInsensitive := True\<rparr>) ''  exit now '' newWorld = (newWorld, True, None)
   \<and> RunString ((newShell False False)\<lparr>Commands := Map.empty, CaseInsensitive := False\<rparr>)
      ''quit'' newWorld = (newWorld, True, None)
   \<and> RunString (newShell True False) ''EXIT'' newWorld
       = (newWorld\<lparr>lineState := Some [''EXIT'']\<rparr>, False, Some (Error ''unknown command: EXIT''))"
proof -
  let ?a = "newShell False False"
  have tokens: "Splitter ?a (TrimSpace ''  exit now '') = Inr (''exit'' # [''now''])"
    by (simp add: session_defs splitter_defs string_defs)
  have tokens': "Splitter ?a (TrimSpace ''quit'') = Inr (''quit'' # [])"
    by (simp add: session_defs splitter_defs string_defs)
  have upper: "RunString (newShell True False) ''EXIT'' newWorld
       = (newWorld\<lparr>lineState := Some [''EXIT'']\<rparr>, False, Some (Error ''unknown command: EXIT''))"
    by (simp add: RunString_def Exec_def ParseOutCommand_def Let_def session_defs splitter_defs
        string_defs)
  from exit_token_short_circuits [OF tokens, where w = newWorld and ci = True
      and reg = "[''exit'' \<mapsto> newCommand ''exit'' []]"]
    exit_token_short_circuits [OF tokens', where w = newWorld and ci = False
      and reg = Map.empty] upper
  show ?thesis by simp
qed

section \<open>Resolving a command\<close>

text \<open>
  Claim C10, as stated, fails. It says that in a case-insensitive shell the lookup fails
  with \<open>unknown command\<close> for every spelling of a name registered with an upper-case
  letter. The lookup uses the lower-case form of the token as the key: when that key is
  registered too, the lookup of \<open>Ping\<close> succeeds and returns the command stored under
  \<open>ping\<close>.
\<close>

theorem uppercase_name_counterexample:
  "CaseInsensitive (newShell True False) \<and> isUpper (CHR ''P'') \<and>
   ParseOutCommand (AddCommand ''Ping'' (newCommand ''Ping'' [''x''])
       (AddCommand ''ping'' (newCommand ''ping'' []) (newShell True False))) [''Ping'']
     = Inr (Some (newCommand ''ping'' []))"
  by (simp add: ParseOutCommand_def AddCommand_def newShell_def Init_def string_defs)

text \<open>
  Claim C10, amended: in a case-insensitive shell \<open>ParseOutCommand\<close> looks the lower-case
  form of the token up while \<open>AddCommand\<close> stores the name as it is given; so a command
  registered under a name with an upper-case letter (here: one of the ASCII letters
  \<open>A\<close> to \<open>Z\<close>) cannot be resolved: registering it changes the result of no lookup, and
  the lookup fails with \<open>unknown command\<close> for every spelling, the registered one
  included, whose lower-case form is not itself a registered name.
\<close>

theorem uppercase_name_unresolvable:
  assumes "CaseInsensitive a" and "\<exists>ch \<in> set name. isUpper ch"
  shows "ParseOutCommand (AddCommand name cmd a) toks = ParseOutCommand a toks
       \<and> (Commands a (ToLower tok) = None \<longrightarrow>
            ParseOutCommand (AddCommand name cmd a) (tok # rest)
              = Inl (Error (''unknown command: '' @ tok)))"
  using assms ToLower_ne_upper [of name]
  by (auto simp: ParseOutCommand_def AddCommand_def UnknownCommand_def split: list.splits)

theorem uppercase_name_unresolvable_witness:
  "ParseOutCommand (AddCommand ''Ping'' (newCommand ''Ping'' []) (newShell True False)) [''Ping'']
     = Inl (Error ''unknown command: Ping'')
   \<and> ParseOutCommand (AddCommand ''Ping'' (newCommand ''Ping'' []) (newShell True False)) [''ping'']
     = Inl (Error ''unknown command: ping'')
   \<and> ParseOutCommand (AddCommand ''Ping'' (newCommand ''Ping'' []) (newShell True False)) [''PING'']
     = Inl (Error ''unknown command: PING'')"
proof -
  let ?a = "newShell True False"
  have ci: "CaseInsensitive ?a"
    by (simp add: newShell_def Init_def)
  have upper: "\<exists>ch \<in> set ''Ping''. isUpper ch"
    by (simp add: isUpper_def upperLetters_def)
  have free: "Commands ?a (ToLower tok) = None" for tok
    by (simp add: newShell_def Init_def)
  note inst = uppercase_name_unresolvable [OF ci upper, where cmd = "newCommand ''Ping'' []"
      and rest = "[]", THEN conjunct2, rule_format, OF free]
  from inst [where tok = "''Ping''"] inst [where tok = "''ping''"] inst [where tok = "''PING''"]
  show ?thesis by simp
qed

section \<open>The completion handler\<close>




text \<open>
  Claim C5: for a line without \<open>;\<close> that the tokenizer cuts in tokens, whose first token
  is not empty, is not an exit token and does not resolve to a registered command, the
  handler lists the registered names that have the lower-case form of the line as a
  prefix. Without \<open>DebugCompletions\<close> nothing else is produced; with it, and on a line
  that has a character other than a space (the test of the source for a line that is not
  empty), the resolution error is written first and the listing is the same.
\<close>

theorem unresolved_command_falls_back:
  assumes "\<not> Contains ln (CHR '';'')"
    and "Splitter a (TrimSpace ln) = Inr (t0 # ts)"
    and "t0 \<noteq> []" and "t0 \<noteq> ''exit''" and "t0 \<noteq> ''quit''"
    and "ParseOutCommand a (t0 # ts) = Inl err"
  shows "snd (CompletionHandler a ks ln w) = filter (\<lambda>name. HasPrefix name (ToLower ln)) ks
       \<and> (set ks = dom (Commands a) \<longrightarrow>
            set (snd (CompletionHandler a ks ln w))
              = {name \<in> dom (Commands a). HasPrefix name (ToLower ln)})
       \<and> (\<not> DebugCompletions a \<longrightarrow> fst (CompletionHandler a ks ln w) = w)
       \<and> (DebugCompletions a \<and> removeSpaces ln \<noteq> [] \<longrightarrow>
            fst (CompletionHandler a ks ln w)
              = w\<lparr>Stdout := Stdout w @ [''error parsing command:  unknown command: '' @ t0]\<rparr>)"
proof -
  from assms(6) have err: "err = UnknownCommand t0"
    by (auto simp: ParseOutCommand_def Let_def split: option.splits)
  from assms show ?thesis
    by (auto simp: CompletionHandler_def matchingNames_def debugPrintln_def Println_def err
        UnknownCommand_def)
qed

text \<open>The line \<open>pi\<close> with \<open>ping\<close> and \<open>help\<close> registered, without and with the debug flag.\<close>

theorem unresolved_command_falls_back_witness:
  "CompletionHandler (AddCommand ''ping'' (newCommand ''ping'' [])
       (AddCommand ''help'' (newCommand ''help'' []) (newShell False False)))
     [''help'', ''ping''] ''pi'' newWorld = (newWorld, [''ping''])
   \<and> CompletionHandler (AddCommand ''ping'' (newCommand ''ping'' [])
       (AddCommand ''help'' (newCommand ''help'' []) (newShell False True)))
     [''help'', ''ping''] ''pi'' newWorld
       = (newWorld\<lparr>Stdout := [''error parsing command:  unknown command: pi'']\<rparr>, [''ping''])"
proof -
  let ?a = "\<lambda>dbg. AddCommand ''ping'' (newCommand ''ping'' [])
       (AddCommand ''help'' (newCommand ''help'' []) (newShell False dbg))"
  have semi: "\<not> Contains ''pi'' (CHR '';'')"
    by (simp add: Contains_def)
  have tokens: "Splitter (?a dbg) (TrimSpace ''pi'') = Inr (''pi'' # [])" for dbg
    by (simp add: session_defs splitter_defs string_defs)
  have first: "''pi'' \<noteq> []" "''pi'' \<noteq> ''exit''" "''pi'' \<noteq> ''quit''"
    by simp_all
  have unknown: "ParseOutCommand (?a dbg) (''pi'' # []) = Inl (Error ''unknown command: pi'')" for dbg
    by (simp add: ParseOutCommand_def session_defs splitter_defs)
  have flag: "DebugCompletions (?a dbg) = dbg" for dbg
    by (simp add: session_defs splitter_defs)
  have listing: "filter (\<lambda>name. HasPrefix name (ToLower ''pi'')) [''help'', ''ping''] = [''ping'']"
    by (simp add: string_defs)
  have chars: "removeSpaces ''pi'' \<noteq> []"
    by (simp add: removeSpaces_def)
  note inst = unresolved_command_falls_back [OF semi tokens first unknown,
      where ks = "[''help'', ''ping'']" and w = newWorld]
  from inst [of False] flag [of False] listing
  have quiet: "CompletionHandler (?a False) [''help'', ''ping''] ''pi'' newWorld
      = (newWorld, [''ping''])"
    by (simp add: prod_eq_iff)
  from inst [of True] flag [of True] listing chars
  have loud: "CompletionHandler (?a True) [''help'', ''ping''] ''pi'' newWorld
      = (newWorld\<lparr>Stdout := [''error parsing command:  unknown command: pi'']\<rparr>, [''ping''])"
    by (simp add: prod_eq_iff newWorld_def)
  from quiet loud show ?thesis by simp
qed

section \<open>The last untyped argument\<close>

text \<open>
  Claim C8. The two examples hold: the last untyped argument of \<open>abc=def ghi\<close> is \<open>ghi\<close>,
  and \<open>abc=def ghi=\<close> has none.
\<close>

lemma untyped_arg_examples:
  "UtilFindUntypedArgInArgStr ''abc=def ghi'' = ''ghi''"
  "UtilFindUntypedArgInArgStr ''abc=def ghi='' = []"
  by (simp_all add: UtilFindUntypedArgInArgStr_def string_defs)

text \<open>
  Where the quoted value holds no quote character, the span is atomic: the argument
  \<open>key=\<close> followed by the quoted value is one argument, whatever spaces and \<open>=\<close> the value
  holds, and it is not an untyped argument.
\<close>

lemma splitLoop_quoted:
  "\<forall>ch \<in> set body. ch \<noteq> sq \<and> ch \<noteq> dq \<Longrightarrow>
     splitLoop (body @ rest) sa cur True = splitLoop rest sa (cur @ body) True"
  by (induction body arbitrary: cur) (auto simp: Let_def)

lemma splitLoop_bare:
  "\<forall>ch \<in> set key. ch \<noteq> sq \<and> ch \<noteq> dq \<and> ch \<noteq> CHR '' '' \<Longrightarrow>
     splitLoop (key @ rest) sa cur False = splitLoop rest sa (cur @ key) False"
  by (induction key arbitrary: cur) (auto simp: Let_def)

lemma quoted_value_atomic:
  assumes "q = sq \<or> q = dq"
    and "\<forall>ch \<in> set body. ch \<noteq> sq \<and> ch \<noteq> dq"
    and "\<forall>ch \<in> set key. ch \<noteq> sq \<and> ch \<noteq> dq \<and> ch \<noteq> CHR '' ''"
  shows "splitLoop (key @ ''='' @ [q] @ body @ [q]) [] [] False = [key @ ''='' @ [q] @ body @ [q]]"
    and "UtilFindUntypedArgInArgStr (key @ ''='' @ [q] @ body @ [q]) = []"
proof -
  have eq: "CHR ''='' \<noteq> sq" "CHR ''='' \<noteq> dq" "sq \<noteq> CHR '' ''" "dq \<noteq> CHR '' ''"
    "sq \<noteq> CHR ''=''" "dq \<noteq> CHR ''=''"
    by (simp_all add: sq_def dq_def)
  have "splitLoop (key @ (''='' @ [q] @ body @ [q])) [] [] False
          = splitLoop (''='' @ [q] @ body @ [q]) [] ([] @ key) False"
    using assms(3) by (rule splitLoop_bare)
  also have "\<dots> = splitLoop (body @ [q]) [] (key @ ''='' @ [q]) True"
    using assms(1) eq by (auto simp: Let_def)
  also have "\<dots> = splitLoop [q] [] ((key @ ''='' @ [q]) @ body) True"
    using assms(2) by (rule splitLoop_quoted)
  also have "\<dots> = [key @ ''='' @ [q] @ body @ [q]]"
    using assms(1) eq by (auto simp: Let_def)
  finally show split: "splitLoop (key @ ''='' @ [q] @ body @ [q]) [] [] False
      = [key @ ''='' @ [q] @ body @ [q]]" by simp
  show "UtilFindUntypedArgInArgStr (key @ ''='' @ [q] @ body @ [q]) = []"
    unfolding UtilFindUntypedArgInArgStr_def split
    using assms(1) eq by (auto simp: Contains_def HasSuffix_def)
qed

text \<open>
  The general part of claim C8 says that a quoted span is atomic: a space inside a quoted
  value is never taken for the end of an argument. The source announces it (it splits
  the input by spaces, preserving quoted arguments) and keeps one flag that either quote
  character toggles. On the argument string made of \<open>x=\<close> followed by the single-quoted
  value \<open>{"a b":1}\<close>, the double quote inside the single-quoted value closes the span,
  the space cuts the argument in two, and the piece after the space is returned as the
  last untyped argument, where the string has none.
\<close>

theorem untyped_arg_inner_quote:
  "UtilFindUntypedArgInArgStr (''x='' @ [sq] @ ''{'' @ [dq] @ ''a b'' @ [dq] @ '':1}'' @ [sq])
     = ''b'' @ [dq] @ '':1}'' @ [sq]"
  by (simp add: UtilFindUntypedArgInArgStr_def string_defs)

end
